theory Spec2Isabelle
  imports Complex_Main "HOL-Library.Multiset" "HOL-Library.Sublist"
begin

chapter \<open>The program\<close>

section \<open>Data model of app.py\<close>

text \<open>
  A Python \<open>str\<close> is modelled as a \<open>string\<close> in which every \<open>char\<close> stands for one
  code point below 256; the functions below are exact on such strings.

  A Python \<open>float\<close> produced by \<open>float(s)\<close> is modelled by the number the text denotes:
  \<open>Finite q\<close> stands for the double nearest to the rational \<open>q\<close> (the rounding to 53
  bits and the overflow of huge literals to infinity are not modelled), \<open>Infinite neg\<close>
  for the two infinities and \<open>NaN\<close> for not-a-number.
\<close>

datatype pyfloat = Finite rat | Infinite bool | NaN

text \<open>The dataclass \<open>Business\<close>; \<open>name\<close>, \<open>latitude\<close> and \<open>longitude\<close> default to \<open>None\<close>.\<close>

record Business =
  name :: "string option"
  address :: string
  website :: string
  phone_number :: string
  reviews_count :: int
  reviews_average :: pyfloat
  latitude :: "pyfloat option"
  longitude :: "pyfloat option"

definition new_Business :: Business where
  "new_Business =
     \<lparr>name = None, address = ''No Address'', website = ''No Website'',
      phone_number = ''No Phone'', reviews_count = 0, reviews_average = Finite 0,
      latitude = None, longitude = None\<rparr>"

type_synonym identity_key = "string option \<times> string \<times> string"

text \<open>The dataclass \<open>BusinessList\<close>.\<close>

record BusinessList =
  business_list :: "Business list"
  save_at :: string
  seen_businesses :: "identity_key set"

definition new_BusinessList :: BusinessList where
  "new_BusinessList = \<lparr>business_list = [], save_at = ''output'', seen_businesses = {}\<rparr>"

section \<open>The deduplication store\<close>

definition unique_key :: "Business \<Rightarrow> identity_key" where
  "unique_key business = (name business, address business, phone_number business)"

text \<open>\<open>BusinessList.add_business\<close>: the returned flag and the mutated object.\<close>

definition add_business :: "Business \<Rightarrow> BusinessList \<Rightarrow> bool \<times> BusinessList" where
  "add_business business self =
     (if unique_key business \<notin> seen_businesses self
      then (True, self\<lparr>seen_businesses := insert (unique_key business) (seen_businesses self),
                       business_list := business_list self @ [business]\<rparr>)
      else (False, self))"

text \<open>\<open>business_list.business_list.clear()\<close>, the statement after each category's flush.\<close>

definition clear_business_list :: "BusinessList \<Rightarrow> BusinessList" where
  "clear_business_list self = self\<lparr>business_list := []\<rparr>"

text \<open>
  A run offers records to one store and clears the buffer between categories.
  \<open>offer_all\<close> replays such a sequence (\<open>Some b\<close> is a call \<open>add_business(b)\<close>,
  \<open>None\<close> the clearing of the buffer) and collects, next to the final store, the answer
  of every \<open>add_business\<close> call in order.
\<close>

fun offer_all :: "Business option list \<Rightarrow> BusinessList \<Rightarrow> (Business \<times> bool) list \<times> BusinessList" where
  "offer_all [] self = ([], self)"
| "offer_all (Some b # evs) self =
     (case add_business b self of (flag, self') \<Rightarrow>
        (case offer_all evs self' of (answers, self'') \<Rightarrow> ((b, flag) # answers, self'')))"
| "offer_all (None # evs) self = offer_all evs (clear_business_list self)"

definition accepted :: "(Business \<times> bool) list \<Rightarrow> Business list" where
  "accepted answers = map fst (filter snd answers)"

section \<open>Python strings and numbers\<close>

text \<open>The exceptions that occur in the program: two of Python's own and Playwright's.\<close>

datatype exn = IndexError | ValueError | PlaywrightTimeoutError | PlaywrightError

definition bind :: "exn + 'a \<Rightarrow> ('a \<Rightarrow> exn + 'b) \<Rightarrow> exn + 'b" where
  "bind m f = (case m of Inl e \<Rightarrow> Inl e | Inr v \<Rightarrow> f v)"

text \<open>
  \<open>s.split(sep)\<close>: the pieces between the occurrences of the separator, found from the
  left and not overlapping. \<open>split_from d ds acc s\<close> scans \<open>s\<close> for the separator
  \<open>d # ds\<close> with the current piece, reversed, in \<open>acc\<close>. An empty separator raises
  \<open>ValueError\<close>.
\<close>

fun split_from :: "char \<Rightarrow> string \<Rightarrow> string \<Rightarrow> string \<Rightarrow> string list" where
  "split_from d ds acc [] = [rev acc]"
| "split_from d ds acc (c # cs) =
     (if c = d \<and> take (length ds) cs = ds
      then rev acc # split_from d ds [] (drop (length ds) cs)
      else split_from d ds (c # acc) cs)"

definition str_split :: "string \<Rightarrow> string \<Rightarrow> exn + string list" where
  "str_split s sep = (case sep of [] \<Rightarrow> Inl ValueError | d # ds \<Rightarrow> Inr (split_from d ds [] s))"

text \<open>\<open>s.replace(old, new)\<close>: every occurrence from the left, not overlapping.\<close>

fun replace_from :: "char \<Rightarrow> string \<Rightarrow> string \<Rightarrow> string \<Rightarrow> string" where
  "replace_from d ds new [] = []"
| "replace_from d ds new (c # cs) =
     (if c = d \<and> take (length ds) cs = ds
      then new @ replace_from d ds new (drop (length ds) cs)
      else c # replace_from d ds new cs)"

definition str_replace :: "string \<Rightarrow> string \<Rightarrow> string \<Rightarrow> string" where
  "str_replace s old new =
     (case old of [] \<Rightarrow> new @ concat (map (\<lambda>c. c # new) s) | d # ds \<Rightarrow> replace_from d ds new s)"

text \<open>\<open>s.strip()\<close> removes the white space of \<open>str.isspace\<close> (below 256) at both ends.\<close>

definition is_space :: "char \<Rightarrow> bool" where
  "is_space c =
     (c \<in> set [CHR 0x09, CHR 0x0A, CHR 0x0B, CHR 0x0C, CHR 0x0D, CHR 0x1C, CHR 0x1D,
               CHR 0x1E, CHR 0x1F, CHR 0x20, CHR 0x85, CHR 0xA0])"

definition str_strip :: "string \<Rightarrow> string" where
  "str_strip s = rev (dropWhile is_space (rev (dropWhile is_space s)))"

text \<open>\<open>xs[i]\<close>: a negative index counts from the end, an index out of range raises.\<close>

definition list_index :: "'a list \<Rightarrow> int \<Rightarrow> exn + 'a" where
  "list_index xs i =
     (if 0 \<le> i \<and> i < int (length xs) then Inr (xs ! nat i)
      else if i < 0 \<and> - i \<le> int (length xs) then Inr (xs ! nat (int (length xs) + i))
      else Inl IndexError)"

text \<open>
  Decimal digits (the only characters of category Nd below 256); the value of a digit is
  its place in \<open>0123456789\<close>.
\<close>

definition is_digit :: "char \<Rightarrow> bool" where
  "is_digit c = (c \<in> set ''0123456789'')"

definition digit_value :: "char \<Rightarrow> nat" where
  "digit_value c = length (takeWhile (\<lambda>d. d \<noteq> c) ''0123456789'')"

definition digits_value :: "string \<Rightarrow> nat" where
  "digits_value ds = foldl (\<lambda>n c. 10 * n + digit_value c) 0 ds"

text \<open>
  \<open>float(s)\<close> and \<open>int(s)\<close>. Both drop the white space around the text (tab to carriage
  return, space, and the two spaces 0x85 and 0xA0 that CPython first turns into a space),
  allow one underscore between two digits, and raise \<open>ValueError\<close> on anything that is not
  a number. \<open>float\<close> reads an optional sign, then \<open>inf\<close>, \<open>infinity\<close> or \<open>nan\<close> in any
  case, or digits with an optional point and an optional exponent; at least one digit
  must stand before the exponent. \<open>int\<close> reads an optional sign and digits, at most 4300
  of them (CPython's default limit for the conversion of a string to an integer).
\<close>

definition is_float_space :: "char \<Rightarrow> bool" where
  "is_float_space c =
     (c \<in> set [CHR 0x09, CHR 0x0A, CHR 0x0B, CHR 0x0C, CHR 0x0D, CHR 0x20, CHR 0x85, CHR 0xA0])"

definition strip_float_space :: "string \<Rightarrow> string" where
  "strip_float_space s = rev (dropWhile is_float_space (rev (dropWhile is_float_space s)))"

fun underscores_ok :: "char \<Rightarrow> string \<Rightarrow> bool" where
  "underscores_ok prev [] = (prev \<noteq> CHR ''_'')"
| "underscores_ok prev (c # cs) =
     (if c = CHR ''_'' then is_digit prev \<and> underscores_ok c cs
      else if prev = CHR ''_'' then is_digit c \<and> underscores_ok c cs
      else underscores_ok c cs)"

definition take_sign :: "string \<Rightarrow> bool \<times> string" where
  "take_sign u =
     (case u of [] \<Rightarrow> (False, [])
      | c # r \<Rightarrow> if c = CHR ''-'' then (True, r) else if c = CHR ''+'' then (False, r) else (False, u))"

definition ascii_lower :: "char \<Rightarrow> char" where
  "ascii_lower c =
     (if c = CHR ''I'' then CHR ''i'' else if c = CHR ''N'' then CHR ''n''
      else if c = CHR ''F'' then CHR ''f'' else if c = CHR ''T'' then CHR ''t''
      else if c = CHR ''Y'' then CHR ''y'' else if c = CHR ''A'' then CHR ''a'' else c)"

definition decimal_value :: "bool \<Rightarrow> string \<Rightarrow> string \<Rightarrow> bool \<Rightarrow> string \<Rightarrow> rat" where
  "decimal_value neg ip fp eneg ed =
     (if neg then - 1 else 1) * (of_nat (digits_value (ip @ fp)) / 10 ^ length fp) *
     (if eneg then 1 / 10 ^ digits_value ed else 10 ^ digits_value ed)"

definition parse_float :: "string \<Rightarrow> exn + pyfloat" where
  "parse_float u =
     (case take_sign u of (neg, r1) \<Rightarrow>
        (let ip = takeWhile is_digit r1;
             r2 = dropWhile is_digit r1;
             dot = (r2 \<noteq> [] \<and> hd r2 = CHR ''.'');
             fp = (if dot then takeWhile is_digit (tl r2) else []);
             r3 = (if dot then dropWhile is_digit (tl r2) else r2)
         in if ip = [] \<and> fp = [] then
              (if map ascii_lower r1 = ''inf'' \<or> map ascii_lower r1 = ''infinity'' then Inr (Infinite neg)
               else if map ascii_lower r1 = ''nan'' then Inr NaN
               else Inl ValueError)
            else if r3 = [] then Inr (Finite (decimal_value neg ip fp False []))
            else if hd r3 = CHR ''e'' \<or> hd r3 = CHR ''E'' then
              (case take_sign (tl r3) of (eneg, ed) \<Rightarrow>
                 if ed \<noteq> [] \<and> list_all is_digit ed
                 then Inr (Finite (decimal_value neg ip fp eneg ed))
                 else Inl ValueError)
            else Inl ValueError))"

definition py_float :: "string \<Rightarrow> exn + pyfloat" where
  "py_float s =
     (let t = strip_float_space s
      in if underscores_ok (CHR 0x00) t then parse_float (filter (\<lambda>c. c \<noteq> CHR ''_'') t)
         else Inl ValueError)"

definition py_int :: "string \<Rightarrow> exn + int" where
  "py_int s =
     (case take_sign (strip_float_space s) of (neg, r) \<Rightarrow>
        (let ds = filter (\<lambda>c. c \<noteq> CHR ''_'') r
         in if ds \<noteq> [] \<and> list_all is_digit ds \<and> underscores_ok (CHR 0x00) r \<and> length ds \<le> 4300
            then Inr (if neg then - int (digits_value ds) else int (digits_value ds))
            else Inl ValueError))"

text \<open>
  \<open>re.search(r'(\d+\.\d+|\d+)', s)\<close> and \<open>re.search(r'(\d+)', s)\<close>, as the text of group 1
  or \<open>None\<close>. Both patterns begin with a digit, so the leftmost match starts at the first
  digit of \<open>s\<close>. There the first alternative is tried first and \<open>\d+\<close> is greedy: it
  matches when the whole run of digits is followed by a point and a digit, and then takes
  the run of digits after the point too; otherwise the match is the run of digits.
\<close>

definition search_number :: "string \<Rightarrow> string option" where
  "search_number s =
     (let r = dropWhile (\<lambda>c. \<not> is_digit c) s;
          ip = takeWhile is_digit r;
          rest = dropWhile is_digit r
      in if r = [] then None
         else if rest \<noteq> [] \<and> hd rest = CHR ''.'' \<and> takeWhile is_digit (tl rest) \<noteq> []
         then Some (ip @ ''.'' @ takeWhile is_digit (tl rest))
         else Some ip)"

definition search_digits :: "string \<Rightarrow> string option" where
  "search_digits s =
     (let r = dropWhile (\<lambda>c. \<not> is_digit c) s
      in if r = [] then None else Some (takeWhile is_digit r))"

section \<open>The helper functions of app.py\<close>

text \<open>
  \<open>extract_coordinates_from_url\<close>. \<open>coordinates_body\<close> is the body of the \<open>try\<close>
  statement, in the order Python evaluates it; the handler turns \<open>IndexError\<close> and
  \<open>ValueError\<close> into \<open>(None, None)\<close> and lets any other exception pass.
\<close>

definition coordinates_body :: "string \<Rightarrow> exn + pyfloat \<times> pyfloat" where
  "coordinates_body url =
     bind (str_split url ''/@'') (\<lambda>parts.
     bind (list_index parts (- 1)) (\<lambda>tail.
     bind (str_split tail ''/'') (\<lambda>segs.
     bind (list_index segs 0) (\<lambda>coordinates.
     bind (str_split coordinates '','') (\<lambda>c0.
     bind (list_index c0 0) (\<lambda>t0.
     bind (py_float t0) (\<lambda>lat.
     bind (str_split coordinates '','') (\<lambda>c1.
     bind (list_index c1 1) (\<lambda>t1.
     bind (py_float t1) (\<lambda>lng. Inr (lat, lng)))))))))))"

definition extract_coordinates_from_url :: "string \<Rightarrow> exn + pyfloat option \<times> pyfloat option" where
  "extract_coordinates_from_url url =
     (case coordinates_body url of
        Inr (lat, lng) \<Rightarrow> Inr (Some lat, Some lng)
      | Inl e \<Rightarrow> if e = IndexError \<or> e = ValueError then Inr (None, None) else Inl e)"

text \<open>\<open>clean_business_name\<close>; the suffix is a space, the middle dot U+00B7 and \<open>Visited link\<close>.\<close>

definition visited_suffix :: string where
  "visited_suffix = '' '' @ [CHR 0xB7] @ '' Visited link''"

definition clean_business_name :: "string \<Rightarrow> string" where
  "clean_business_name nm = str_strip (str_replace nm visited_suffix [])"

section \<open>The page driver and the extraction of one listing\<close>

text \<open>
  Everything outside the program is a parameter: the Playwright page and the random
  generator, as operations on a state \<open>'w\<close> of the outside world. A call returns a value
  or raises an exception, and the world moves on. The locators are the ones the source
  names; a listing is one of the locators that \<open>.all()\<close> returned. The launch of the
  browser and its closing are taken to succeed.
\<close>

datatype selector =
    SearchBox | PlaceLinks | AddressText | WebsiteText | PhoneText | RatingImage
  | ReviewsButton | EndOfListText

type_synonym ('w, 'a) call = "'w \<Rightarrow> (exn + 'a) \<times> 'w"

record 'w driver =
  goto :: "('w, unit) call"
  wait_for_selector :: "selector \<Rightarrow> nat \<Rightarrow> ('w, unit) call"
  fill :: "string \<Rightarrow> ('w, unit) call"
  press_enter :: "('w, unit) call"
  count_links :: "('w, nat) call"
  all_links :: "('w, nat list) call"
  click :: "nat \<Rightarrow> ('w, unit) call"
  wait_for_timeout :: "nat \<Rightarrow> ('w, unit) call"
  link_aria_label :: "nat \<Rightarrow> ('w, string option) call"
  inner_text :: "selector \<Rightarrow> ('w, string) call"
  aria_label :: "selector \<Rightarrow> ('w, string option) call"
  page_url :: "'w \<Rightarrow> string"
  mouse_wheel :: "('w, unit) call"
  is_visible :: "selector \<Rightarrow> ('w, bool) call"
  random_choice :: "nat \<Rightarrow> 'w \<Rightarrow> nat \<times> 'w"

text \<open>Sequencing of calls: an exception ends the sequence, as it does in Python.\<close>

definition then_call :: "('w, 'a) call \<Rightarrow> ('a \<Rightarrow> ('w, 'b) call) \<Rightarrow> ('w, 'b) call" where
  "then_call m f w = (case m w of (Inl e, w') \<Rightarrow> (Inl e, w') | (Inr v, w') \<Rightarrow> f v w')"

definition return :: "'a \<Rightarrow> ('w, 'a) call" where
  "return v w = (Inr v, w)"

definition lift :: "exn + 'a \<Rightarrow> ('w, 'a) call" where
  "lift r w = (r, w)"

text \<open>\<open>x or d\<close> on strings, and on the optional string that \<open>get_attribute\<close> returns.\<close>

definition or_default :: "string \<Rightarrow> string \<Rightarrow> string" where
  "or_default s d = (if s = [] then d else s)"

definition or_default_opt :: "string option \<Rightarrow> string \<Rightarrow> string" where
  "or_default_opt s d = (case s of None \<Rightarrow> d | Some t \<Rightarrow> or_default t d)"

text \<open>
  The two review fields: the statements under \<open>if reviews_avg:\<close> and
  \<open>if reviews_count:\<close>. \<open>current\<close> is the value the field has before, which stays when
  the text read is \<open>None\<close> or empty.
\<close>

definition parse_reviews_average :: "string option \<Rightarrow> pyfloat \<Rightarrow> exn + pyfloat" where
  "parse_reviews_average reviews_avg current =
     (case reviews_avg of
        None \<Rightarrow> Inr current
      | Some s \<Rightarrow>
          if s = [] then Inr current
          else (case search_number (str_replace s '','' ''.'') of
                  Some m \<Rightarrow> py_float m
                | None \<Rightarrow> Inr (Finite 0)))"

definition parse_reviews_count :: "string \<Rightarrow> int \<Rightarrow> exn + int" where
  "parse_reviews_count reviews_count_text current =
     (if reviews_count_text = [] then Inr current
      else (case search_digits (str_replace reviews_count_text '','' []) of
              Some m \<Rightarrow> py_int m
            | None \<Rightarrow> Inr 0))"

text \<open>
  The statements that fill one \<open>Business\<close> after the listing was clicked, in the order
  of the source: the reads of the driver, none of them inside a \<open>try\<close>, and the values
  assigned to the fields of a fresh \<open>Business()\<close>.
\<close>

definition fill_business ::
  "string option \<Rightarrow> string \<Rightarrow> string \<Rightarrow> string \<Rightarrow> pyfloat \<Rightarrow> int
     \<Rightarrow> pyfloat option \<times> pyfloat option \<Rightarrow> Business" where
  "fill_business label addr web phone avg cnt coords =
     new_Business\<lparr>
       name := Some (clean_business_name (or_default_opt label ''Unknown'')),
       address := or_default addr ''No Address'',
       website := or_default web ''No Website'',
       phone_number := or_default phone ''No Phone'',
       reviews_average := avg,
       reviews_count := cnt,
       latitude := fst coords,
       longitude := snd coords\<rparr>"

definition read_business :: "'w driver \<Rightarrow> nat \<Rightarrow> ('w, Business) call" where
  "read_business page listing =
     then_call (link_aria_label page listing) (\<lambda>label.
     then_call (inner_text page AddressText) (\<lambda>addr.
     then_call (inner_text page WebsiteText) (\<lambda>web.
     then_call (inner_text page PhoneText) (\<lambda>phone.
     then_call (aria_label page RatingImage) (\<lambda>reviews_avg.
     then_call (lift (parse_reviews_average reviews_avg (reviews_average new_Business))) (\<lambda>avg.
     then_call (inner_text page ReviewsButton) (\<lambda>reviews_count_text.
     then_call (lift (parse_reviews_count reviews_count_text (reviews_count new_Business))) (\<lambda>cnt.
     (\<lambda>w. then_call (lift (extract_coordinates_from_url (page_url page w))) (\<lambda>coords.
             return (fill_business label addr web phone avg cnt coords)) w)))))))))"

text \<open>\<open>listing.click()\<close>, the wait for the detail panel, and the reads.\<close>

definition visit_listing :: "'w driver \<Rightarrow> nat \<Rightarrow> ('w, Business) call" where
  "visit_listing page listing =
     then_call (click page listing) (\<lambda>_.
     then_call (wait_for_timeout page 2000) (\<lambda>_.
     read_business page listing))"

section \<open>The CSV file\<close>

text \<open>
  The file system holds directories and CSV files; a file is its lines, a header line
  with the column names or the row of one record. Writing is taken to succeed.
  \<open>dataframe\<close> is the table of the buffered records; a table of no records has no
  columns, so its header line is empty.
\<close>

datatype csv_line = Header "string list" | Row Business

record fs =
  dirs :: "string set"
  files_of :: "string \<Rightarrow> csv_line list option"

definition path_exists :: "fs \<Rightarrow> string \<Rightarrow> bool" where
  "path_exists f p = (p \<in> dirs f \<or> files_of f p \<noteq> None)"

definition makedirs :: "string \<Rightarrow> fs \<Rightarrow> fs" where
  "makedirs p f = f\<lparr>dirs := insert p (dirs f)\<rparr>"

definition dataframe :: "BusinessList \<Rightarrow> Business list" where
  "dataframe self = business_list self"

definition columns :: "Business list \<Rightarrow> string list" where
  "columns df =
     (if df = [] then []
      else [''name'', ''address'', ''website'', ''phone_number'', ''reviews_count'',
            ''reviews_average'', ''latitude'', ''longitude''])"

text \<open>\<open>df.to_csv(file_path, mode=mode, index=False, header=header)\<close>; mode \<open>'a'\<close> appends.\<close>

definition to_csv :: "Business list \<Rightarrow> string \<Rightarrow> bool \<Rightarrow> bool \<Rightarrow> fs \<Rightarrow> fs" where
  "to_csv df file_path mode_a header f =
     (let written = (if header then [Header (columns df)] else []) @ map Row df;
          old = (case files_of f file_path of None \<Rightarrow> [] | Some ls \<Rightarrow> ls)
      in f\<lparr>files_of := (files_of f)(file_path \<mapsto> (if mode_a then old @ written else written))\<rparr>)"

definition csv_path :: "BusinessList \<Rightarrow> string \<Rightarrow> string" where
  "csv_path self filename = save_at self @ ''/'' @ filename @ ''.csv''"

text \<open>\<open>BusinessList.save_to_csv\<close>; \<open>do_append\<close> is the parameter \<open>append\<close>.\<close>

definition save_to_csv :: "BusinessList \<Rightarrow> string \<Rightarrow> bool \<Rightarrow> fs \<Rightarrow> fs" where
  "save_to_csv self filename do_append f =
     (let f1 = (if \<not> path_exists f (save_at self) then makedirs (save_at self) f else f);
          file_path = csv_path self filename
      in if do_append \<and> path_exists f1 file_path
         then to_csv (dataframe self) file_path do_append False f1
         else to_csv (dataframe self) file_path do_append True f1)"

text \<open>A sequence of \<open>save_to_csv(filename, append=True)\<close> calls, one per buffered batch.\<close>

fun save_batches :: "Business list list \<Rightarrow> BusinessList \<Rightarrow> string \<Rightarrow> fs \<Rightarrow> fs" where
  "save_batches [] self filename f = f"
| "save_batches (batch # rest) self filename f =
     save_batches rest self filename (save_to_csv (self\<lparr>business_list := batch\<rparr>) filename True f)"

definition is_header :: "csv_line \<Rightarrow> bool" where
  "is_header l = (case l of Header _ \<Rightarrow> True | Row _ \<Rightarrow> False)"

section \<open>The run: scrape_businesses\<close>

text \<open>
  What the status line, the progress bar and \<open>st.write\<close> show, each message by its parts:
  \<open>Searching t c s\<close> is the text \<open>Searching: t in c, s\<close>, \<open>Progress p n\<close> the fraction
  \<open>p / n\<close> given to the progress bar, \<open>Scraped p n name\<close> the text
  \<open>Scraped p of n: name\<close>.
\<close>

datatype ui_event =
    Scraping_for string
  | Searching string string string
  | Timeout_skipping string string string
  | No_results string string string
  | Progress int int
  | Scraped int int "string option"

text \<open>
  The state of a run: the world outside, the object \<open>business_list\<close> (here \<open>store\<close>),
  the counter \<open>progress\<close>, what was shown, and the files.
\<close>

record 'w run =
  page_state :: 'w
  store :: BusinessList
  progress :: int
  ui :: "ui_event list"
  files :: fs

definition on_page :: "('w, 'a) call \<Rightarrow> 'w run \<Rightarrow> (exn + 'a) \<times> 'w run" where
  "on_page m st = (case m (page_state st) of (r, w) \<Rightarrow> (r, st\<lparr>page_state := w\<rparr>))"

text \<open>
  \<open>for listing in listings\<close>: the \<open>break\<close> at the quota, the visit, \<open>add_business\<close>, and
  the counters and messages of an accepted record. An exception of the visit leaves the
  loop and, nothing catching it, the run.
\<close>

fun harvest_listings ::
  "'w driver \<Rightarrow> int \<Rightarrow> int \<Rightarrow> nat list \<Rightarrow> int \<Rightarrow> 'w run \<Rightarrow> (exn + int) \<times> 'w run" where
  "harvest_listings page num_listings total_listings [] listings_scraped st = (Inr listings_scraped, st)"
| "harvest_listings page num_listings total_listings (listing # rest) listings_scraped st =
     (if listings_scraped \<ge> num_listings then (Inr listings_scraped, st)
      else
        (case on_page (visit_listing page listing) st of
           (Inl e, st1) \<Rightarrow> (Inl e, st1)
         | (Inr business, st1) \<Rightarrow>
             (case add_business business (store st1) of
                (True, store') \<Rightarrow>
                  harvest_listings page num_listings total_listings rest (listings_scraped + 1)
                    (st1\<lparr>store := store', progress := progress st1 + 1,
                         ui := ui st1 @ [Progress (progress st1 + 1) total_listings,
                                         Scraped (progress st1 + 1) total_listings (name business)]\<rparr>)
              | (False, store') \<Rightarrow>
                  harvest_listings page num_listings total_listings rest listings_scraped
                    (st1\<lparr>store := store'\<rparr>))))"

text \<open>
  One turn of \<open>while listings_scraped < num_listings\<close>: the listings now on the page are
  harvested, the panel is scrolled, and the turn reports whether the end-of-list text is
  visible, which is the loop's \<open>break\<close>.
\<close>

definition scroll_pass ::
  "'w driver \<Rightarrow> int \<Rightarrow> int \<Rightarrow> int \<Rightarrow> 'w run \<Rightarrow> (exn + bool \<times> int) \<times> 'w run" where
  "scroll_pass page num_listings total_listings listings_scraped st =
     (case on_page (all_links page) st of
        (Inl e, st1) \<Rightarrow> (Inl e, st1)
      | (Inr listings, st1) \<Rightarrow>
          (case harvest_listings page num_listings total_listings listings listings_scraped st1 of
             (Inl e, st2) \<Rightarrow> (Inl e, st2)
           | (Inr scraped, st2) \<Rightarrow>
               (case on_page (then_call (mouse_wheel page) (\<lambda>_.
                              then_call (wait_for_timeout page 3000) (\<lambda>_.
                              is_visible page EndOfListText))) st2 of
                  (Inl e, st3) \<Rightarrow> (Inl e, st3)
                | (Inr visible, st3) \<Rightarrow> (Inr (visible, scraped), st3))))"

text \<open>The inner \<open>while\<close> loop; \<open>None\<close> is a loop that never ends.\<close>

partial_function (option) harvest_loop ::
  "'w driver \<Rightarrow> int \<Rightarrow> int \<Rightarrow> int \<Rightarrow> 'w run \<Rightarrow> ((exn + int) \<times> 'w run) option" where
  "harvest_loop page num_listings total_listings listings_scraped st =
     (if listings_scraped < num_listings then
        (case scroll_pass page num_listings total_listings listings_scraped st of
           (Inl e, st') \<Rightarrow> Some (Inl e, st')
         | (Inr (visible, scraped), st') \<Rightarrow>
             if visible then Some (Inr scraped, st')
             else harvest_loop page num_listings total_listings scraped st')
      else Some (Inr listings_scraped, st))"

definition search_for_text :: "string \<Rightarrow> string \<Rightarrow> string \<Rightarrow> string" where
  "search_for_text business_type city state = business_type @ '' in '' @ city @ '', '' @ state"

text \<open>The five calls inside the \<open>try\<close> statement of a search.\<close>

definition run_search :: "'w driver \<Rightarrow> string \<Rightarrow> ('w, unit) call" where
  "run_search page search_for =
     then_call (goto page) (\<lambda>_.
     then_call (wait_for_selector page SearchBox 10000) (\<lambda>_.
     then_call (fill page search_for) (\<lambda>_.
     then_call (press_enter page) (\<lambda>_.
     wait_for_selector page PlaceLinks 7000))))"

text \<open>
  \<open>random.choice(cities_states_copy)\<close> and \<open>cities_states_copy.remove(...)\<close>: the
  generator gives an index into the list, and \<open>remove\<close> deletes the first equal entry.
\<close>

definition draw_location ::
  "'w driver \<Rightarrow> (string \<times> string) list \<Rightarrow> 'w \<Rightarrow> ((string \<times> string) \<times> (string \<times> string) list) \<times> 'w" where
  "draw_location page cities_states_copy w =
     (case random_choice page (length cities_states_copy) w of
        (i, w') \<Rightarrow>
          (let selected = cities_states_copy ! (i mod length cities_states_copy)
           in ((selected, remove1 selected cities_states_copy), w')))"

text \<open>
  \<open>while listings_scraped < num_listings and cities_states_copy\<close>, for one category.
  Only \<open>PlaywrightTimeoutError\<close> of the search is caught (\<open>continue\<close>). The loop returns
  the final \<open>listings_scraped\<close> and the locations left.
\<close>

partial_function (option) location_loop ::
  "'w driver \<Rightarrow> string \<Rightarrow> int \<Rightarrow> int \<Rightarrow> int \<Rightarrow> (string \<times> string) list \<Rightarrow> 'w run
     \<Rightarrow> ((exn + int \<times> (string \<times> string) list) \<times> 'w run) option" where
  "location_loop page business_type num_listings total_listings listings_scraped cities_states_copy st =
     (if listings_scraped < num_listings \<and> cities_states_copy \<noteq> [] then
        (case draw_location page cities_states_copy (page_state st) of
           (((city, state), remaining), w) \<Rightarrow>
             (case on_page (run_search page (search_for_text business_type city state))
                     (st\<lparr>page_state := w, ui := ui st @ [Searching business_type city state]\<rparr>) of
                (Inl e, st2) \<Rightarrow>
                  if e = PlaywrightTimeoutError
                  then location_loop page business_type num_listings total_listings listings_scraped remaining
                         (st2\<lparr>ui := ui st2 @ [Timeout_skipping business_type city state]\<rparr>)
                  else Some (Inl e, st2)
              | (Inr _, st2) \<Rightarrow>
                  (case on_page (count_links page) st2 of
                     (Inl e, st3) \<Rightarrow> Some (Inl e, st3)
                   | (Inr current_count, st3) \<Rightarrow>
                       if current_count = 0
                       then location_loop page business_type num_listings total_listings listings_scraped remaining
                              (st3\<lparr>ui := ui st3 @ [No_results business_type city state]\<rparr>)
                       else
                         (case harvest_loop page num_listings total_listings listings_scraped st3 of
                            None \<Rightarrow> None
                          | Some (Inl e, st4) \<Rightarrow> Some (Inl e, st4)
                          | Some (Inr scraped, st4) \<Rightarrow>
                              location_loop page business_type num_listings total_listings scraped remaining st4))))
      else Some (Inr (listings_scraped, cities_states_copy), st))"

text \<open>The end of a category: the buffer, if not empty, is saved and cleared.\<close>

definition flush_category :: "'w run \<Rightarrow> 'w run" where
  "flush_category st =
     (if business_list (store st) \<noteq> []
      then st\<lparr>files := save_to_csv (store st) ''Scraped_results'' True (files st),
              store := clear_business_list (store st)\<rparr>
      else st)"

text \<open>\<open>for selected_business_type in selected_business_types\<close>.\<close>

fun category_loop ::
  "'w driver \<Rightarrow> int \<Rightarrow> int \<Rightarrow> (string \<times> string) list \<Rightarrow> string list \<Rightarrow> 'w run
     \<Rightarrow> ((exn + unit) \<times> 'w run) option" where
  "category_loop page num_listings total_listings cities_states [] st = Some (Inr (), st)"
| "category_loop page num_listings total_listings cities_states (selected_business_type # rest) st =
     (case location_loop page selected_business_type num_listings total_listings 0 cities_states
             (st\<lparr>ui := ui st @ [Scraping_for selected_business_type]\<rparr>) of
        None \<Rightarrow> None
      | Some (Inl e, st1) \<Rightarrow> Some (Inl e, st1)
      | Some (Inr _, st1) \<Rightarrow>
          category_loop page num_listings total_listings cities_states rest (flush_category st1))"

text \<open>
  \<open>scrape_businesses\<close>: the value returned, or the exception that ended the run, with
  the final state; \<open>None\<close> when the run never ends. The progress bar and the status line
  are the list \<open>ui\<close> of the state.
\<close>

definition scrape_businesses ::
  "'w driver \<Rightarrow> string list \<Rightarrow> int \<Rightarrow> bool \<Rightarrow> (string \<times> string) list \<Rightarrow> 'w \<Rightarrow> fs
     \<Rightarrow> ((exn + Business list) \<times> 'w run) option" where
  "scrape_businesses page selected_business_types num_listings headless cities_states w0 f0 =
     (case category_loop page num_listings (int (length selected_business_types) * num_listings)
             cities_states selected_business_types
             \<lparr>page_state = w0, store = new_BusinessList, progress = 0, ui = [], files = f0\<rparr> of
        None \<Rightarrow> None
      | Some (Inl e, st) \<Rightarrow> Some (Inl e, st)
      | Some (Inr _, st) \<Rightarrow> Some (Inr (dataframe (store st)), st))"

section \<open>Example pages\<close>

text \<open>
  A page on which every search shows one listing, \<open>Gym A\<close>, whose panel has an address
  and nothing else, and on which the end-of-list text never shows.
\<close>

definition lone_listing_page :: "unit driver" where
  "lone_listing_page =
     \<lparr>goto = return (), wait_for_selector = (\<lambda>_ _. return ()), fill = (\<lambda>_. return ()),
      press_enter = return (), count_links = return 1, all_links = return [0],
      click = (\<lambda>_. return ()), wait_for_timeout = (\<lambda>_. return ()),
      link_aria_label = (\<lambda>_. return (Some ''Gym A'')),
      inner_text = (\<lambda>sel. return (if sel = AddressText then ''1 Main St'' else [])),
      aria_label = (\<lambda>_. return None),
      page_url = (\<lambda>_. ''https://www.google.com/maps/place/Gym+A/@30.2672,-97.7431,15z''),
      mouse_wheel = return (), is_visible = (\<lambda>_. return False),
      random_choice = (\<lambda>n w. (0, w))\<rparr>"

definition empty_fs :: fs where
  "empty_fs = \<lparr>dirs = {}, files_of = (\<lambda>_. None)\<rparr>"

definition gym_a :: Business where
  "gym_a =
     \<lparr>name = Some ''Gym A'', address = ''1 Main St'', website = ''No Website'',
      phone_number = ''No Phone'', reviews_count = 0, reviews_average = Finite 0,
      latitude = Some (Finite (302672 / 10000)), longitude = Some (Finite (- 977431 / 10000))\<rparr>"

text \<open>The same page, but clicking a listing times out.\<close>

definition click_timeout_page :: "unit driver" where
  "click_timeout_page = lone_listing_page\<lparr>click := (\<lambda>_ w. (Inl PlaywrightTimeoutError, w))\<rparr>"

text \<open>The same page, but the result links never appear within the time allowed.\<close>

definition search_timeout_page :: "unit driver" where
  "search_timeout_page =
     lone_listing_page\<lparr>wait_for_selector :=
       (\<lambda>sel ms w. if sel = PlaceLinks then (Inl PlaywrightTimeoutError, w) else (Inr (), w))\<rparr>"

text \<open>
  The same page, but the panel of the listing has no website element: Playwright's
  \<open>inner_text\<close> waits for the element and raises its \<open>TimeoutError\<close>.
\<close>

definition no_website_page :: "unit driver" where
  "no_website_page =
     lone_listing_page\<lparr>inner_text :=
       (\<lambda>sel w. if sel = WebsiteText then (Inl PlaywrightTimeoutError, w)
                 else (Inr (if sel = AddressText then ''1 Main St'' else []), w))\<rparr>"


definition fresh_run :: "unit run" where
  "fresh_run = \<lparr>page_state = (), store = new_BusinessList, progress = 0, ui = [], files = empty_fs\<rparr>"

text \<open>The locations searched, read off the \<open>Searching\<close> messages in the order shown.\<close>

definition searched_locations :: "ui_event list \<Rightarrow> (string \<times> string) list" where
  "searched_locations evs =
     concat (map (\<lambda>e. case e of Searching t c s \<Rightarrow> [(c, s)] | _ \<Rightarrow> []) evs)"

chapter \<open>Properties\<close>

section \<open>The deduplication store admits a key once\<close>

lemma add_business_seen:
  "add_business b self = (flag, self') \<Longrightarrow>
     seen_businesses self' = insert (unique_key b) (seen_businesses self)"
  by (auto simp: add_business_def split: if_splits)

lemma add_business_flag:
  "add_business b self = (flag, self') \<Longrightarrow> flag = (unique_key b \<notin> seen_businesses self)"
  by (auto simp: add_business_def split: if_splits)

lemma offer_all_seen:
  "offer_all evs self = (answers, self') \<Longrightarrow>
     seen_businesses self' = seen_businesses self \<union> unique_key ` set (accepted answers) \<and>
     distinct (map unique_key (accepted answers)) \<and>
     unique_key ` set (accepted answers) \<inter> seen_businesses self = {}"
proof (induction evs self arbitrary: answers self' rule: offer_all.induct)
  case (1 self)
  then show ?case by (simp add: accepted_def)
next
  case (2 b evs self)
  obtain flag s1 where step: "add_business b self = (flag, s1)"
    by (cases "add_business b self")
  obtain rest s2 where tail: "offer_all evs s1 = (rest, s2)"
    by (cases "offer_all evs s1")
  from "2.prems" step tail have ans: "answers = (b, flag) # rest" and fin: "self' = s2"
    by simp_all
  have ih: "seen_businesses s2 = seen_businesses s1 \<union> unique_key ` set (accepted rest) \<and>
     distinct (map unique_key (accepted rest)) \<and>
     unique_key ` set (accepted rest) \<inter> seen_businesses s1 = {}"
    using "2.IH" [OF step [symmetric] tail] .
  have s1: "seen_businesses s1 = insert (unique_key b) (seen_businesses self)"
    using add_business_seen [OF step] .
  have fl: "flag = (unique_key b \<notin> seen_businesses self)"
    using add_business_flag [OF step] .
  show ?case
    using ih s1 fl unfolding ans fin accepted_def by (cases flag) auto
next
  case (3 evs self)
  then show ?case by (simp add: clear_business_list_def)
qed

lemma offer_all_answers:
  "offer_all evs self = (answers, self') \<Longrightarrow> i < length answers \<Longrightarrow>
     snd (answers ! i) =
       (unique_key (fst (answers ! i)) \<notin> seen_businesses self \<union> unique_key ` fst ` set (take i answers))"
proof (induction evs self arbitrary: answers self' i rule: offer_all.induct)
  case (1 self)
  then show ?case by simp
next
  case (2 b evs self)
  obtain flag s1 where step: "add_business b self = (flag, s1)"
    by (cases "add_business b self")
  obtain rest s2 where tail: "offer_all evs s1 = (rest, s2)"
    by (cases "offer_all evs s1")
  from "2.prems" step tail have ans: "answers = (b, flag) # rest"
    by simp
  have s1: "seen_businesses s1 = insert (unique_key b) (seen_businesses self)"
    using add_business_seen [OF step] .
  have fl: "flag = (unique_key b \<notin> seen_businesses self)"
    using add_business_flag [OF step] .
  show ?case
  proof (cases i)
    case 0
    then show ?thesis using fl ans by simp
  next
    case (Suc j)
    with "2.prems"(2) ans have j: "j < length rest" by simp
    have "snd (rest ! j) =
       (unique_key (fst (rest ! j)) \<notin> seen_businesses s1 \<union> unique_key ` fst ` set (take j rest))"
      using "2.IH" [OF step [symmetric] tail j] .
    then show ?thesis using Suc ans s1 by auto
  qed
next
  case (3 evs self)
  then show ?case by (simp add: clear_business_list_def)
qed

text \<open>
  Claim C1. Within one run (a fresh store, any sequence of \<open>add_business\<close> calls and
  buffer clearings) no two accepted records share the key (name, address, phone_number):
  a call answers \<open>True\<close> exactly when no earlier offered record had the same key, the
  accepted record is then appended and its key recorded, and a call whose key has been
  seen answers \<open>False\<close> and leaves the list and the set of seen keys as they were.
\<close>

theorem add_business_first_occurrence_only:
  "(offer_all evs new_BusinessList = (answers, self') \<longrightarrow>
      distinct (map unique_key (accepted answers)) \<and>
      seen_businesses self' = unique_key ` set (accepted answers) \<and>
      (\<forall>i < length answers.
         snd (answers ! i) = (unique_key (fst (answers ! i)) \<notin> unique_key ` fst ` set (take i answers)))) \<and>
   (unique_key b \<notin> seen_businesses self \<longrightarrow>
      add_business b self =
        (True, self\<lparr>seen_businesses := insert (unique_key b) (seen_businesses self),
                    business_list := business_list self @ [b]\<rparr>)) \<and>
   (unique_key b \<in> seen_businesses self \<longrightarrow> add_business b self = (False, self)) \<and>
   (snd (add_business b (snd (add_business b self))) = snd (add_business b self) \<and>
    \<not> fst (add_business b (snd (add_business b self))))"
proof (intro conjI impI)
  assume run: "offer_all evs new_BusinessList = (answers, self')"
  from offer_all_seen [OF run]
  show "distinct (map unique_key (accepted answers))"
    and "seen_businesses self' = unique_key ` set (accepted answers)"
    by (simp_all add: new_BusinessList_def)
  show "\<forall>i < length answers.
         snd (answers ! i) = (unique_key (fst (answers ! i)) \<notin> unique_key ` fst ` set (take i answers))"
    using offer_all_answers [OF run] by (simp add: new_BusinessList_def)
qed (simp_all add: add_business_def)

theorem add_business_first_occurrence_only_witness:
  "offer_all [Some (new_Business\<lparr>name := Some ''Gym A''\<rparr>), Some (new_Business\<lparr>name := Some ''Gym A''\<rparr>),
              None, Some (new_Business\<lparr>name := Some ''Gym A''\<rparr>)] new_BusinessList =
     ([(new_Business\<lparr>name := Some ''Gym A''\<rparr>, True), (new_Business\<lparr>name := Some ''Gym A''\<rparr>, False),
       (new_Business\<lparr>name := Some ''Gym A''\<rparr>, False)],
      new_BusinessList\<lparr>seen_businesses := {(Some ''Gym A'', ''No Address'', ''No Phone'')}\<rparr>) \<and>
   distinct (map unique_key (accepted
     [(new_Business\<lparr>name := Some ''Gym A''\<rparr>, True), (new_Business\<lparr>name := Some ''Gym A''\<rparr>, False),
      (new_Business\<lparr>name := Some ''Gym A''\<rparr>, False)])) \<and>
   unique_key (new_Business\<lparr>name := Some ''Gym A''\<rparr>) \<notin> seen_businesses new_BusinessList \<and>
   add_business (new_Business\<lparr>name := Some ''Gym A''\<rparr>) new_BusinessList =
     (True, new_BusinessList\<lparr>seen_businesses := {(Some ''Gym A'', ''No Address'', ''No Phone'')},
                             business_list := [new_Business\<lparr>name := Some ''Gym A''\<rparr>]\<rparr>) \<and>
   unique_key (new_Business\<lparr>name := Some ''Gym A''\<rparr>)
     \<in> seen_businesses (new_BusinessList\<lparr>seen_businesses := {(Some ''Gym A'', ''No Address'', ''No Phone'')}\<rparr>) \<and>
   add_business (new_Business\<lparr>name := Some ''Gym A''\<rparr>)
       (new_BusinessList\<lparr>seen_businesses := {(Some ''Gym A'', ''No Address'', ''No Phone'')}\<rparr>) =
     (False, new_BusinessList\<lparr>seen_businesses := {(Some ''Gym A'', ''No Address'', ''No Phone'')}\<rparr>)"
proof -
  let ?b = "new_Business\<lparr>name := Some ''Gym A''\<rparr>"
  let ?s = "new_BusinessList\<lparr>seen_businesses := {(Some ''Gym A'', ''No Address'', ''No Phone'')}\<rparr>"
  have run: "offer_all [Some ?b, Some ?b, None, Some ?b] new_BusinessList =
     ([(?b, True), (?b, False), (?b, False)], ?s)"
    by (simp add: add_business_def unique_key_def clear_business_list_def new_Business_def
        new_BusinessList_def)
  have fresh: "unique_key ?b \<notin> seen_businesses new_BusinessList"
    by (simp add: new_BusinessList_def)
  have seen: "unique_key ?b \<in> seen_businesses ?s"
    by (simp add: unique_key_def new_Business_def)
  from add_business_first_occurrence_only
         [of "[Some ?b, Some ?b, None, Some ?b]" "[(?b, True), (?b, False), (?b, False)]" ?s ?b new_BusinessList]
       add_business_first_occurrence_only
         [of "[Some ?b, Some ?b, None, Some ?b]" "[(?b, True), (?b, False), (?b, False)]" ?s ?b ?s]
       run fresh seen
  show ?thesis
    by (simp add: unique_key_def new_Business_def new_BusinessList_def)
qed

section \<open>Evaluating the program\<close>

lemmas text_eval = str_replace_def str_strip_def is_space_def str_split_def list_index_def bind_def
  py_float_def parse_float_def take_sign_def strip_float_space_def is_float_space_def is_digit_def
  decimal_value_def digits_value_def digit_value_def Let_def py_int_def search_number_def
  search_digits_def

lemmas read_eval = return_def then_call_def lift_def read_business_def parse_reviews_average_def
  parse_reviews_count_def or_default_def or_default_opt_def clean_business_name_def visited_suffix_def
  extract_coordinates_from_url_def coordinates_body_def fill_business_def new_Business_def

lemma lone_fields:
  "goto lone_listing_page = return ()"
  "wait_for_selector lone_listing_page = (\<lambda>_ _. return ())"
  "fill lone_listing_page = (\<lambda>_. return ())"
  "press_enter lone_listing_page = return ()"
  "count_links lone_listing_page = return 1"
  "all_links lone_listing_page = return [0]"
  "click lone_listing_page = (\<lambda>_. return ())"
  "wait_for_timeout lone_listing_page = (\<lambda>_. return ())"
  "mouse_wheel lone_listing_page = return ()"
  "is_visible lone_listing_page = (\<lambda>_. return False)"
  "random_choice lone_listing_page = (\<lambda>n w. (0, w))"
  by (simp_all add: lone_listing_page_def)

lemma read_business_lone: "read_business lone_listing_page listing w = (Inr gym_a, w)"
  by (simp add: lone_listing_page_def read_eval text_eval gym_a_def)


lemma visit_listing_lone: "visit_listing lone_listing_page listing w = (Inr gym_a, w)"
  by (simp add: visit_listing_def then_call_def lone_fields return_def read_business_lone)

lemma unique_key_gym_a: "unique_key gym_a = (Some ''Gym A'', ''1 Main St'', ''No Phone'')"
  by (simp add: unique_key_def gym_a_def)

lemma harvest_loop_done:
  "\<not> scraped < num \<Longrightarrow> harvest_loop page num tot scraped st = Some (Inr scraped, st)"
  by (subst harvest_loop.simps) simp

lemma location_loop_done:
  "\<not> (scraped < num \<and> pool \<noteq> []) \<Longrightarrow>
     location_loop page t num tot scraped pool st = Some (Inr (scraped, pool), st)"
  by (subst location_loop.simps) (simp only: if_not_P if_False)

lemma run_search_lone: "run_search lone_listing_page q w = (Inr (), w)"
  by (simp add: run_search_def then_call_def lone_fields return_def)

text \<open>One turn of the inner loop on the example page: the listing is new, or was seen.\<close>

lemma scroll_pass_lone_new:
  "unique_key gym_a \<notin> seen_businesses (store st) \<Longrightarrow> scraped < num \<Longrightarrow>
   scroll_pass lone_listing_page num tot scraped st =
     (Inr (False, scraped + 1),
      st\<lparr>store := (store st)\<lparr>seen_businesses := insert (unique_key gym_a) (seen_businesses (store st)),
                               business_list := business_list (store st) @ [gym_a]\<rparr>,
          progress := progress st + 1,
          ui := ui st @ [Progress (progress st + 1) tot, Scraped (progress st + 1) tot (name gym_a)]\<rparr>)"
  by (simp add: scroll_pass_def on_page_def visit_listing_lone add_business_def then_call_def
      lone_fields return_def)


lemma harvest_loop_lone_quota_1:
  "unique_key gym_a \<notin> seen_businesses (store st) \<Longrightarrow>
   harvest_loop lone_listing_page 1 tot 0 st =
     Some (Inr 1,
      st\<lparr>store := (store st)\<lparr>seen_businesses := insert (unique_key gym_a) (seen_businesses (store st)),
                               business_list := business_list (store st) @ [gym_a]\<rparr>,
          progress := progress st + 1,
          ui := ui st @ [Progress (progress st + 1) tot, Scraped (progress st + 1) tot (name gym_a)]\<rparr>)"
  by (subst harvest_loop.simps) (simp add: scroll_pass_lone_new harvest_loop_done)

lemma location_loop_lone_quota_1:
  "unique_key gym_a \<notin> seen_businesses (store st) \<Longrightarrow>
   location_loop lone_listing_page t 1 tot 0 [(''Austin'', ''TX'')] st =
     Some (Inr (1, []),
      st\<lparr>store := (store st)\<lparr>seen_businesses := insert (unique_key gym_a) (seen_businesses (store st)),
                               business_list := business_list (store st) @ [gym_a]\<rparr>,
          progress := progress st + 1,
          ui := ui st @ [Searching t ''Austin'' ''TX'', Progress (progress st + 1) tot,
                         Scraped (progress st + 1) tot (name gym_a)]\<rparr>)"
  by (subst location_loop.simps)
     (simp add: draw_location_def lone_fields on_page_def run_search_lone return_def
        harvest_loop_lone_quota_1 location_loop_done)

section \<open>The inner loop has no stagnation fallback\<close>








section \<open>What the run returns\<close>

lemma flush_category_buffer: "business_list (store (flush_category st)) = []"
  by (simp add: flush_category_def clear_business_list_def)

lemma category_loop_buffer:
  "category_loop page num tot cities types st = Some (Inr u, st') \<Longrightarrow>
     business_list (store st) = [] \<Longrightarrow> business_list (store st') = []"
proof (induction types arbitrary: st)
  case Nil
  then show ?case by simp
next
  case (Cons t types)
  from Cons.prems(1) obtain v st1 where
    "category_loop page num tot cities types (flush_category st1) = Some (Inr u, st')"
    by (auto split: option.splits sum.splits prod.splits)
  from Cons.IH [OF this flush_category_buffer] show ?case .
qed

text \<open>
  Claim C5 says that the run returns the table of all accepted records. The code clears
  the buffer after each category and builds the returned table from the buffer, so the
  table it returns is empty on every run.
\<close>

theorem scrape_businesses_returns_empty_table:
  "scrape_businesses page types num headless cities w f = Some (Inr df, st) \<Longrightarrow> df = []"
proof -
  assume run: "scrape_businesses page types num headless cities w f = Some (Inr df, st)"
  let ?st0 = "\<lparr>page_state = w, store = new_BusinessList, progress = 0, ui = [], files = f\<rparr>"
  from run obtain u where
    loop: "category_loop page num (int (length types) * num) cities types ?st0 = Some (Inr u, st)"
    and df: "df = dataframe (store st)"
    by (auto simp: scrape_businesses_def split: option.splits sum.splits prod.splits)
  have "business_list (store ?st0) = []" by (simp add: new_BusinessList_def)
  from category_loop_buffer [OF loop this] df show ?thesis by (simp add: dataframe_def)
qed

theorem scrape_businesses_returns_empty_table_witness:
  "scrape_businesses lone_listing_page [''Gyms''] 1 True [(''Austin'', ''TX'')] () empty_fs =
     Some (Inr [],
       \<lparr>page_state = (),
        store = \<lparr>business_list = [], save_at = ''output'',
                 seen_businesses = {(Some ''Gym A'', ''1 Main St'', ''No Phone'')}\<rparr>,
        progress = 1,
        ui = [Scraping_for ''Gyms'', Searching ''Gyms'' ''Austin'' ''TX'', Progress 1 1,
              Scraped 1 1 (Some ''Gym A'')],
        files = \<lparr>dirs = {''output''},
                 files_of = (\<lambda>_. None)(''output/Scraped_results.csv'' \<mapsto>
                   [Header [''name'', ''address'', ''website'', ''phone_number'', ''reviews_count'',
                            ''reviews_average'', ''latitude'', ''longitude''], Row gym_a])\<rparr>\<rparr>)"
proof -
  obtain r where run: "scrape_businesses lone_listing_page [''Gyms''] 1 True [(''Austin'', ''TX'')] () empty_fs =
     Some (Inr r,
       \<lparr>page_state = (),
        store = \<lparr>business_list = [], save_at = ''output'',
                 seen_businesses = {(Some ''Gym A'', ''1 Main St'', ''No Phone'')}\<rparr>,
        progress = 1,
        ui = [Scraping_for ''Gyms'', Searching ''Gyms'' ''Austin'' ''TX'', Progress 1 1,
              Scraped 1 1 (Some ''Gym A'')],
        files = \<lparr>dirs = {''output''},
                 files_of = (\<lambda>_. None)(''output/Scraped_results.csv'' \<mapsto>
                   [Header [''name'', ''address'', ''website'', ''phone_number'', ''reviews_count'',
                            ''reviews_average'', ''latitude'', ''longitude''], Row gym_a])\<rparr>\<rparr>)"
    apply (simp add: scrape_businesses_def location_loop_lone_quota_1 new_BusinessList_def unique_key_gym_a)
    apply (simp add: flush_category_def save_to_csv_def path_exists_def makedirs_def empty_fs_def to_csv_def
      csv_path_def dataframe_def columns_def clear_business_list_def Let_def gym_a_def)
    done
  from scrape_businesses_returns_empty_table [OF run] run show ?thesis by simp
qed

section \<open>Timeouts of driver calls\<close>

lemma search_timeout_fields:
  "goto search_timeout_page = return ()"
  "wait_for_selector search_timeout_page SearchBox = (\<lambda>ms w. (Inr (), w))"
  "wait_for_selector search_timeout_page PlaceLinks = (\<lambda>ms w. (Inl PlaywrightTimeoutError, w))"
  "fill search_timeout_page = (\<lambda>_. return ())"
  "press_enter search_timeout_page = return ()"
  "random_choice search_timeout_page = (\<lambda>n w. (0, w))"
  by (simp_all add: search_timeout_page_def lone_fields)

lemma run_search_times_out:
  "run_search search_timeout_page q w = (Inl PlaywrightTimeoutError, w)"
  by (simp add: run_search_def then_call_def search_timeout_fields return_def)

lemma location_loop_search_timeout:
  "location_loop search_timeout_page t 1 tot 0 [(''Austin'', ''TX'')] st =
     Some (Inr (0, []), st\<lparr>ui := ui st @ [Searching t ''Austin'' ''TX'', Timeout_skipping t ''Austin'' ''TX'']\<rparr>)"
  by (subst location_loop.simps)
     (simp add: draw_location_def search_timeout_fields on_page_def run_search_times_out
        location_loop_done)

lemma click_timeout_fields:
  "goto click_timeout_page = return ()"
  "wait_for_selector click_timeout_page = (\<lambda>_ _. return ())"
  "fill click_timeout_page = (\<lambda>_. return ())"
  "press_enter click_timeout_page = return ()"
  "count_links click_timeout_page = return 1"
  "all_links click_timeout_page = return [0]"
  "click click_timeout_page = (\<lambda>_ w. (Inl PlaywrightTimeoutError, w))"
  "random_choice click_timeout_page = (\<lambda>n w. (0, w))"
  by (simp_all add: click_timeout_page_def lone_fields)

lemma harvest_loop_click_timeout:
  "harvest_loop click_timeout_page 1 tot 0 st = Some (Inl PlaywrightTimeoutError, st)"
  by (subst harvest_loop.simps)
     (simp add: scroll_pass_def on_page_def click_timeout_fields return_def visit_listing_def
        then_call_def)

lemma location_loop_click_timeout:
  "location_loop click_timeout_page t 1 tot 0 [(''Austin'', ''TX'')] st =
     Some (Inl PlaywrightTimeoutError, st\<lparr>ui := ui st @ [Searching t ''Austin'' ''TX'']\<rparr>)"
  by (subst location_loop.simps)
     (simp add: draw_location_def click_timeout_fields on_page_def run_search_def then_call_def
        return_def harvest_loop_click_timeout)

text \<open>
  Claim C4 says that a timeout of any driver call abandons only the current search or
  listing and that the run goes on. The code does so for the calls of a search, which
  stand inside \<open>try\<close>: with every search timing out, both categories are tried and
  the run returns. The calls on a listing stand outside any \<open>try\<close>: when the click on
  the first listing times out, the exception ends the run, and the second category is
  never searched.
\<close>

theorem click_timeout_aborts_the_run:
  "scrape_businesses search_timeout_page [''Gyms'', ''Painting''] 1 True [(''Austin'', ''TX'')] () empty_fs =
     Some (Inr [],
       fresh_run\<lparr>ui := [Scraping_for ''Gyms'', Searching ''Gyms'' ''Austin'' ''TX'',
                         Timeout_skipping ''Gyms'' ''Austin'' ''TX'',
                         Scraping_for ''Painting'', Searching ''Painting'' ''Austin'' ''TX'',
                         Timeout_skipping ''Painting'' ''Austin'' ''TX'']\<rparr>) \<and>
   scrape_businesses click_timeout_page [''Gyms'', ''Painting''] 1 True [(''Austin'', ''TX'')] () empty_fs =
     Some (Inl PlaywrightTimeoutError,
       fresh_run\<lparr>ui := [Scraping_for ''Gyms'', Searching ''Gyms'' ''Austin'' ''TX'']\<rparr>)"
  by (simp add: scrape_businesses_def location_loop_search_timeout location_loop_click_timeout
      flush_category_def new_BusinessList_def fresh_run_def dataframe_def)

section \<open>Fields that are missing from the panel\<close>

lemma no_website_fields:
  "goto no_website_page = return ()"
  "wait_for_selector no_website_page = (\<lambda>_ _. return ())"
  "fill no_website_page = (\<lambda>_. return ())"
  "press_enter no_website_page = return ()"
  "count_links no_website_page = return 1"
  "all_links no_website_page = return [0]"
  "click no_website_page = (\<lambda>_. return ())"
  "wait_for_timeout no_website_page = (\<lambda>_. return ())"
  "random_choice no_website_page = (\<lambda>n w. (0, w))"
  by (simp_all add: no_website_page_def lone_fields)

lemma read_business_no_website:
  "read_business no_website_page listing w = (Inl PlaywrightTimeoutError, w)"
  by (simp add: read_business_def then_call_def no_website_page_def lone_listing_page_def return_def)

lemma harvest_loop_no_website:
  "harvest_loop no_website_page 1 tot 0 st = Some (Inl PlaywrightTimeoutError, st)"
  by (subst harvest_loop.simps)
     (simp add: scroll_pass_def on_page_def no_website_fields return_def visit_listing_def
        then_call_def read_business_no_website)

lemma location_loop_no_website:
  "location_loop no_website_page t 1 tot 0 [(''Austin'', ''TX'')] st =
     Some (Inl PlaywrightTimeoutError, st\<lparr>ui := ui st @ [Searching t ''Austin'' ''TX'']\<rparr>)"
  by (subst location_loop.simps)
     (simp add: draw_location_def no_website_fields on_page_def run_search_def then_call_def
        return_def harvest_loop_no_website)

text \<open>
  Claim C2 says that a missing address, website or phone element only makes the field take
  its default and never raises. The code gives the default to a text that was read and is
  empty. A missing element makes the read itself raise, and no handler stands around the
  reads: on a listing whose panel has no website element the extraction raises before the
  phone is read, no record is built, and the run ends with the exception.
\<close>

theorem missing_website_element_raises:
  "address (fill_business label [] web phone avg cnt coords) = ''No Address'' \<and>
   website (fill_business label addr [] phone avg cnt coords) = ''No Website'' \<and>
   phone_number (fill_business label addr web [] avg cnt coords) = ''No Phone'' \<and>
   read_business no_website_page 0 () = (Inl PlaywrightTimeoutError, ()) \<and>
   scrape_businesses no_website_page [''Gyms'', ''Painting''] 1 True [(''Austin'', ''TX'')] () empty_fs =
     Some (Inl PlaywrightTimeoutError,
       fresh_run\<lparr>ui := [Scraping_for ''Gyms'', Searching ''Gyms'' ''Austin'' ''TX'']\<rparr>)"
  by (simp add: read_business_no_website scrape_businesses_def location_loop_no_website
      new_BusinessList_def fresh_run_def fill_business_def or_default_def)

section \<open>Records whose key fields all fell back to the defaults\<close>

lemma offer_all_append:
  "offer_all (xs @ ys) self =
     (case offer_all xs self of (a1, s1) \<Rightarrow>
        (case offer_all ys s1 of (a2, s2) \<Rightarrow> (a1 @ a2, s2)))"
  by (induction xs self rule: offer_all.induct) (auto split: prod.splits)

lemma offer_all_keeps_seen:
  "offer_all evs self = (answers, self') \<Longrightarrow> k \<in> seen_businesses self \<Longrightarrow> k \<in> seen_businesses self'"
  using offer_all_seen [of evs self answers self'] by simp

lemma clean_business_name_Unknown: "clean_business_name ''Unknown'' = ''Unknown''"
  by (simp add: clean_business_name_def visited_suffix_def str_replace_def str_strip_def is_space_def)

text \<open>
  Claim C10. The key is taken from the fields after the defaults were filled in: a record
  whose label, address and phone were all read as nothing has the key
  (Unknown, No Address, No Phone), whatever its website, reviews and coordinates. Once one
  record with this key was offered in a run, every later record with this key is rejected,
  however many other records and buffer clearings lie between them.
\<close>

theorem defaulted_records_share_one_key:
  "(label = None \<or> label = Some []) \<and>
   offer_all (evs1 @ Some b1 # evs2 @ [Some b2]) new_BusinessList = (answers, self') \<and>
   unique_key b1 = (Some ''Unknown'', ''No Address'', ''No Phone'') \<and>
   unique_key b2 = (Some ''Unknown'', ''No Address'', ''No Phone'') \<Longrightarrow>
     unique_key (fill_business label [] web [] avg cnt coords) = (Some ''Unknown'', ''No Address'', ''No Phone'') \<and>
     last answers = (b2, False) \<and>
     length (filter (\<lambda>b. unique_key b = (Some ''Unknown'', ''No Address'', ''No Phone'')) (accepted answers)) = 1"
proof -
  let ?k = "(Some ''Unknown'', ''No Address'', ''No Phone'')"
  assume a: "(label = None \<or> label = Some []) \<and>
   offer_all (evs1 @ Some b1 # evs2 @ [Some b2]) new_BusinessList = (answers, self') \<and>
   unique_key b1 = ?k \<and> unique_key b2 = ?k"
  then have lab: "label = None \<or> label = Some []"
    and run: "offer_all (evs1 @ Some b1 # evs2 @ [Some b2]) new_BusinessList = (answers, self')"
    and k1: "unique_key b1 = ?k" and k2: "unique_key b2 = ?k"
    by simp_all
  have key: "unique_key (fill_business label [] web [] avg cnt coords) = ?k"
    using lab
    by (auto simp: unique_key_def fill_business_def or_default_def or_default_opt_def
        clean_business_name_Unknown)
  obtain a1 s1 where r1: "offer_all evs1 new_BusinessList = (a1, s1)"
    by (cases "offer_all evs1 new_BusinessList")
  obtain f1 s2 where r2: "add_business b1 s1 = (f1, s2)"
    by (cases "add_business b1 s1")
  obtain a3 s3 where r3: "offer_all evs2 s2 = (a3, s3)"
    by (cases "offer_all evs2 s2")
  obtain f4 s4 where r4: "add_business b2 s3 = (f4, s4)"
    by (cases "add_business b2 s3")
  from run r1 r2 r3 r4 have ans: "answers = a1 @ (b1, f1) # a3 @ [(b2, f4)]"
    by (simp add: offer_all_append)
  have "?k \<in> seen_businesses s2"
    using add_business_seen [OF r2] k1 by simp
  then have "?k \<in> seen_businesses s3"
    by (rule offer_all_keeps_seen [OF r3])
  then have f4: "f4 = False"
    using add_business_flag [OF r4] k2 by simp
  have d: "distinct (map unique_key (accepted answers))"
    using offer_all_seen [OF run] by simp
  have "?k \<in> unique_key ` set (accepted answers)"
  proof -
    have "seen_businesses self' = unique_key ` set (accepted answers)"
      using offer_all_seen [OF run] by (simp add: new_BusinessList_def)
    moreover have "?k \<in> seen_businesses s4"
      using add_business_seen [OF r4] k2 by simp
    moreover have "s4 = self'"
      using run r1 r2 r3 r4 by (simp add: offer_all_append)
    ultimately show ?thesis by simp
  qed
  then have m: "{k. k = ?k} \<inter> set (map unique_key (accepted answers)) = {?k}" by auto
  have "length (filter (\<lambda>k. k = ?k) (map unique_key (accepted answers))) =
          card ({k. k = ?k} \<inter> set (map unique_key (accepted answers)))"
    using d by (rule distinct_length_filter)
  also have "\<dots> = 1" by (simp only: m) simp
  finally have "length (filter (\<lambda>k. k = ?k) (map unique_key (accepted answers))) = 1" .
  then have one: "length (filter (\<lambda>b. unique_key b = ?k) (accepted answers)) = 1"
    by (simp add: filter_map comp_def)
  from key ans f4 one show ?thesis by simp
qed

theorem defaulted_records_share_one_key_witness:
  "offer_all ([] @ Some (fill_business None [] [] [] (Finite 0) 0 (None, None)) # [None] @
              [Some (fill_business (Some []) [] ''gym-b.example'' [] (Finite (9 / 2)) 12 (None, None))])
     new_BusinessList =
     ([(fill_business None [] [] [] (Finite 0) 0 (None, None), True),
       (fill_business (Some []) [] ''gym-b.example'' [] (Finite (9 / 2)) 12 (None, None), False)],
      new_BusinessList\<lparr>seen_businesses := {(Some ''Unknown'', ''No Address'', ''No Phone'')}\<rparr>) \<and>
   unique_key (fill_business None [] [] [] (Finite 0) 0 (None, None)) =
     (Some ''Unknown'', ''No Address'', ''No Phone'') \<and>
   unique_key (fill_business (Some []) [] ''gym-b.example'' [] (Finite (9 / 2)) 12 (None, None)) =
     (Some ''Unknown'', ''No Address'', ''No Phone'') \<and>
   last [(fill_business None [] [] [] (Finite 0) 0 (None, None), True),
         (fill_business (Some []) [] ''gym-b.example'' [] (Finite (9 / 2)) 12 (None, None), False)] =
     (fill_business (Some []) [] ''gym-b.example'' [] (Finite (9 / 2)) 12 (None, None), False)"
proof -
  let ?b1 = "fill_business None [] [] [] (Finite 0) 0 (None, None)"
  let ?b2 = "fill_business (Some []) [] ''gym-b.example'' [] (Finite (9 / 2)) 12 (None, None)"
  let ?k = "(Some ''Unknown'', ''No Address'', ''No Phone'')"
  have k1: "unique_key ?b1 = ?k"
    by (simp add: unique_key_def fill_business_def or_default_def or_default_opt_def
        clean_business_name_Unknown)
  have k2: "unique_key ?b2 = ?k"
    by (simp add: unique_key_def fill_business_def or_default_def or_default_opt_def
        clean_business_name_Unknown)
  have run: "offer_all ([] @ Some ?b1 # [None] @ [Some ?b2]) new_BusinessList =
     ([(?b1, True), (?b2, False)], new_BusinessList\<lparr>seen_businesses := {?k}\<rparr>)"
    by (simp add: add_business_def k1 k2 clear_business_list_def) (simp add: new_BusinessList_def)
  from defaulted_records_share_one_key [of None "[]" ?b1 "[None]" ?b2 "[(?b1, True), (?b2, False)]"
      "new_BusinessList\<lparr>seen_businesses := {?k}\<rparr>" "[]" "Finite 0" 0 "(None, None)"] run k1 k2
  show ?thesis by simp
qed

section \<open>Reading the review fields\<close>

lemma replace_from_single_set:
  "set (replace_from d [] new s) \<subseteq> set s \<union> set new"
  by (induction s) auto

lemma no_digit_after_replace:
  assumes "\<forall>c\<in>set s. \<not> is_digit c" and "\<forall>c\<in>set new. \<not> is_digit c"
  shows "dropWhile (\<lambda>c. \<not> is_digit c) (str_replace s '','' new) = []"
proof -
  have "set (str_replace s '','' new) \<subseteq> set s \<union> set new"
    using replace_from_single_set [of "CHR '',''" new s] by (simp add: str_replace_def)
  with assms have "\<forall>c\<in>set (str_replace s '','' new). \<not> is_digit c" by blast
  then show ?thesis by simp
qed

text \<open>
  Claim C7. The rating label \<open>4,5 stars\<close> gives the average 4.5 and the count text
  \<open>1,234 reviews\<close> gives the count 1234. A label that is absent or empty, and a text that
  is empty, leave the field at its default, 0.0 or 0; a label or text without any digit
  sets the field to 0.0 or 0.
\<close>

theorem review_fields_parsed_or_defaulted:
  "parse_reviews_average (Some ''4,5 stars'') (reviews_average new_Business) = Inr (Finite (9 / 2)) \<and>
   parse_reviews_count ''1,234 reviews'' (reviews_count new_Business) = Inr 1234 \<and>
   parse_reviews_average None (reviews_average new_Business) = Inr (Finite 0) \<and>
   parse_reviews_average (Some []) (reviews_average new_Business) = Inr (Finite 0) \<and>
   parse_reviews_count [] (reviews_count new_Business) = Inr 0 \<and>
   ((\<forall>c\<in>set s. \<not> is_digit c) \<longrightarrow>
      parse_reviews_average (Some s) (reviews_average new_Business) = Inr (Finite 0) \<and>
      parse_reviews_count s (reviews_count new_Business) = Inr 0)"
proof (intro conjI impI)
  show "parse_reviews_average (Some ''4,5 stars'') (reviews_average new_Business) = Inr (Finite (9 / 2))"
    by (simp add: parse_reviews_average_def str_replace_def search_number_def is_digit_def py_float_def
        strip_float_space_def is_float_space_def parse_float_def take_sign_def decimal_value_def
        digits_value_def digit_value_def Let_def)
  show "parse_reviews_count ''1,234 reviews'' (reviews_count new_Business) = Inr 1234"
    by (simp add: parse_reviews_count_def str_replace_def search_digits_def is_digit_def py_int_def
        strip_float_space_def is_float_space_def take_sign_def digits_value_def digit_value_def Let_def)
next
  assume nd: "\<forall>c\<in>set s. \<not> is_digit c"
  have dot: "\<forall>c\<in>set ''.''. \<not> is_digit c" by (simp add: is_digit_def)
  show "parse_reviews_average (Some s) (reviews_average new_Business) = Inr (Finite 0)"
    using no_digit_after_replace [OF nd dot]
    by (simp add: parse_reviews_average_def search_number_def new_Business_def)
  show "parse_reviews_count s (reviews_count new_Business) = Inr 0"
    using no_digit_after_replace [OF nd, of "[]"]
    by (simp add: parse_reviews_count_def search_digits_def new_Business_def)
qed (simp_all add: parse_reviews_average_def parse_reviews_count_def new_Business_def)

theorem review_fields_parsed_or_defaulted_witness:
  "filter is_digit ''No reviews'' = [] \<and>
   parse_reviews_average (Some ''No reviews'') (reviews_average new_Business) = Inr (Finite 0) \<and>
   parse_reviews_count ''No reviews'' (reviews_count new_Business) = Inr 0"
proof -
  have nd: "\<forall>c\<in>set ''No reviews''. \<not> is_digit c" by (simp add: is_digit_def)
  from review_fields_parsed_or_defaulted [of "''No reviews''"] nd show ?thesis by simp
qed

section \<open>The header line of the CSV file\<close>

lemma csv_path_not_save_at: "csv_path self filename \<noteq> save_at self"
  by (simp add: csv_path_def)

lemma csv_path_batch [simp]: "csv_path (self\<lparr>business_list := b\<rparr>) filename = csv_path self filename"
  by (simp add: csv_path_def)

lemma save_to_csv_creates:
  "\<not> path_exists f (csv_path self filename) \<Longrightarrow>
     files_of (save_to_csv (self\<lparr>business_list := b\<rparr>) filename True f) (csv_path self filename) =
       Some (Header (columns b) # map Row b)"
  using csv_path_not_save_at [of self filename]
  by (auto simp: save_to_csv_def path_exists_def makedirs_def to_csv_def dataframe_def Let_def)

lemma save_to_csv_appends:
  "files_of f (csv_path self filename) = Some old \<Longrightarrow>
     files_of (save_to_csv (self\<lparr>business_list := b\<rparr>) filename True f) (csv_path self filename) =
       Some (old @ map Row b)"
  by (auto simp: save_to_csv_def path_exists_def makedirs_def to_csv_def dataframe_def Let_def)

lemma save_batches_appends:
  "files_of f (csv_path self filename) = Some old \<Longrightarrow>
     files_of (save_batches bs self filename f) (csv_path self filename) =
       Some (old @ concat (map (map Row) bs))"
proof (induction bs arbitrary: f old)
  case Nil
  then show ?case by simp
next
  case (Cons b bs)
  from Cons.IH [OF save_to_csv_appends [OF Cons.prems, of b]] show ?case by simp
qed

lemma no_header_in_rows: "filter is_header (concat (map (map Row) bs)) = []"
  by (induction bs) (simp_all add: is_header_def filter_empty_conv)

text \<open>
  Claim C9. In a sequence of \<open>save_to_csv(..., append=True)\<close> calls to one destination,
  the call that finds no file there creates it with the header line followed by its rows,
  and every call that finds the file appends its rows and no header: after the sequence
  the file holds one header line, its first.
\<close>

theorem header_written_once:
  "(\<not> path_exists f (csv_path self filename) \<longrightarrow>
      files_of (save_batches (b # bs) self filename f) (csv_path self filename) =
        Some (Header (columns b) # map Row b @ concat (map (map Row) bs)) \<and>
      length (filter is_header
        (the (files_of (save_batches (b # bs) self filename f) (csv_path self filename)))) = 1) \<and>
   (files_of f (csv_path self filename) = Some old \<longrightarrow>
      files_of (save_batches bs self filename f) (csv_path self filename) =
        Some (old @ concat (map (map Row) bs)) \<and>
      filter is_header (the (files_of (save_batches bs self filename f) (csv_path self filename))) =
        filter is_header old)"
proof (intro conjI impI)
  assume new: "\<not> path_exists f (csv_path self filename)"
  show c: "files_of (save_batches (b # bs) self filename f) (csv_path self filename) =
        Some (Header (columns b) # map Row b @ concat (map (map Row) bs))"
    using save_batches_appends [OF save_to_csv_creates [OF new, of b], of bs] by simp
  show "length (filter is_header
        (the (files_of (save_batches (b # bs) self filename f) (csv_path self filename)))) = 1"
    using no_header_in_rows [of "b # bs"] unfolding c by (simp add: is_header_def)
next
  assume old: "files_of f (csv_path self filename) = Some old"
  show c: "files_of (save_batches bs self filename f) (csv_path self filename) =
        Some (old @ concat (map (map Row) bs))"
    by (rule save_batches_appends [OF old])
  show "filter is_header (the (files_of (save_batches bs self filename f) (csv_path self filename))) =
        filter is_header old"
    unfolding c by (simp add: no_header_in_rows)
qed

theorem header_written_once_witness:
  "\<not> path_exists empty_fs (csv_path new_BusinessList ''Scraped_results'') \<and>
   files_of (save_batches [[gym_a], [gym_a\<lparr>name := Some ''Gym B''\<rparr>]] new_BusinessList ''Scraped_results'' empty_fs)
      ''output/Scraped_results.csv'' =
     Some [Header [''name'', ''address'', ''website'', ''phone_number'', ''reviews_count'',
                   ''reviews_average'', ''latitude'', ''longitude''],
           Row gym_a, Row (gym_a\<lparr>name := Some ''Gym B''\<rparr>)] \<and>
   files_of (save_batches [[gym_a\<lparr>name := Some ''Gym B''\<rparr>]] new_BusinessList ''Scraped_results''
       (save_batches [[gym_a]] new_BusinessList ''Scraped_results'' empty_fs))
      ''output/Scraped_results.csv'' =
     Some [Header [''name'', ''address'', ''website'', ''phone_number'', ''reviews_count'',
                   ''reviews_average'', ''latitude'', ''longitude''],
           Row gym_a, Row (gym_a\<lparr>name := Some ''Gym B''\<rparr>)]"
proof -
  have p: "csv_path new_BusinessList ''Scraped_results'' = ''output/Scraped_results.csv''"
    by (simp add: csv_path_def new_BusinessList_def)
  have new: "\<not> path_exists empty_fs (csv_path new_BusinessList ''Scraped_results'')"
    by (simp add: path_exists_def empty_fs_def)
  have first: "files_of (save_batches [[gym_a]] new_BusinessList ''Scraped_results'' empty_fs)
      (csv_path new_BusinessList ''Scraped_results'') =
     Some [Header (columns [gym_a]), Row gym_a]"
    using header_written_once [of empty_fs new_BusinessList "''Scraped_results''" "[gym_a]" "[]"] new
    by simp
  from header_written_once [of empty_fs new_BusinessList "''Scraped_results''" "[gym_a]"
         "[[gym_a\<lparr>name := Some ''Gym B''\<rparr>]]"]
       header_written_once [of "save_batches [[gym_a]] new_BusinessList ''Scraped_results'' empty_fs"
         new_BusinessList "''Scraped_results''" _ "[[gym_a\<lparr>name := Some ''Gym B''\<rparr>]]"
         "[Header (columns [gym_a]), Row gym_a]"]
       new first
  show ?thesis by (simp add: p columns_def)
qed

section \<open>Locations are drawn without replacement\<close>

lemma searched_locations_append [simp]:
  "searched_locations (xs @ ys) = searched_locations xs @ searched_locations ys"
  by (simp add: searched_locations_def)

lemma searched_locations_simps [simp]:
  "searched_locations [] = []"
  "searched_locations (Searching t c s # evs) = (c, s) # searched_locations evs"
  "searched_locations (Scraping_for t # evs) = searched_locations evs"
  "searched_locations (Timeout_skipping t c s # evs) = searched_locations evs"
  "searched_locations (No_results t c s # evs) = searched_locations evs"
  "searched_locations (Progress p n # evs) = searched_locations evs"
  "searched_locations (Scraped p n nm # evs) = searched_locations evs"
  by (simp_all add: searched_locations_def)





















section \<open>Coordinates from the URL\<close>


lemma split_from_not_Nil: "split_from d ds acc s \<noteq> []"
  by (induction d ds acc s rule: split_from.induct) auto

lemma sublist_slash_at_Cons:
  "sublist ''/@'' (c # cs) \<longleftrightarrow> (c = CHR ''/'' \<and> take 1 cs = ''@'') \<or> sublist ''/@'' cs"
proof -
  have "prefix ''/@'' (c # cs) \<longleftrightarrow> c = CHR ''/'' \<and> take 1 cs = ''@''"
    by (cases cs) auto
  then show ?thesis by (simp add: sublist_Cons_right)
qed

lemma split_slash_at_none:
  "\<not> sublist ''/@'' s \<Longrightarrow> split_from CHR ''/'' ''@'' acc s = [rev acc @ s]"
proof (induction s arbitrary: acc)
  case Nil
  then show ?case by simp
next
  case (Cons c cs)
  from Cons.prems have no: "\<not> (c = CHR ''/'' \<and> take 1 cs = ''@'')" and rest: "\<not> sublist ''/@'' cs"
    by (simp_all add: sublist_slash_at_Cons)
  from no Cons.IH [OF rest, of "c # acc"] show ?case by simp
qed

lemma split_slash_at_last:
  "\<not> sublist ''/@'' tail \<Longrightarrow>
     last (split_from CHR ''/'' ''@'' acc (pre @ CHR ''/'' # CHR ''@'' # tail)) = tail"
proof (induction "length pre" arbitrary: pre acc rule: less_induct)
  case less
  note IH = less.hyps [OF _ less.prems]
  show ?case
  proof (cases pre)
    case Nil
    then show ?thesis by (simp add: split_slash_at_none [OF less.prems])
  next
    case (Cons c cs)
    show ?thesis
    proof (cases cs)
      case Nil
      have "last (split_from CHR ''/'' ''@'' (c # acc) ([] @ CHR ''/'' # CHR ''@'' # tail)) = tail"
        by (rule IH) (simp add: Cons)
      then show ?thesis by (simp add: Cons Nil)
    next
      case (Cons c2 cs')
      show ?thesis
      proof (cases "c = CHR ''/'' \<and> c2 = CHR ''@''")
        case True
        have "last (split_from CHR ''/'' ''@'' [] (cs' @ CHR ''/'' # CHR ''@'' # tail)) = tail"
          by (rule IH) (simp add: \<open>pre = c # cs\<close> Cons)
        with True show ?thesis
          by (simp add: \<open>pre = c # cs\<close> Cons split_from_not_Nil)
      next
        case False
        have "last (split_from CHR ''/'' ''@'' (c # acc) (cs @ CHR ''/'' # CHR ''@'' # tail)) = tail"
          by (rule IH) (simp add: \<open>pre = c # cs\<close>)
        with False show ?thesis
          by (auto simp: \<open>pre = c # cs\<close> Cons)
      qed
    qed
  qed
qed

lemma list_index_last: "xs \<noteq> [] \<Longrightarrow> list_index xs (- 1) = Inr (last xs)"
  by (cases xs rule: rev_cases) (auto simp: list_index_def nth_append)

lemma list_index_first: "xs \<noteq> [] \<Longrightarrow> list_index xs 0 = Inr (hd xs)"
  by (cases xs) (auto simp: list_index_def)


lemma coordinates_tail:
  assumes "url = pre @ ''/@'' @ tail \<or> url = tail" and "\<not> sublist ''/@'' tail"
  shows "bind (str_split url ''/@'') (\<lambda>parts. list_index parts (- 1)) = Inr tail"
proof -
  from assms have "last (split_from CHR ''/'' ''@'' [] url) = tail"
    using split_slash_at_last [of tail "[]" pre] split_slash_at_none [of tail "[]"] by auto
  then show ?thesis
    by (simp add: bind_def str_split_def list_index_last split_from_not_Nil)
qed


























end
